theory Spec2Isabelle
  imports Main "HOL-Library.Word" "HOL-Library.Sublist"
begin

section \<open>Outcomes of a call\<close>

text \<open>
  The C++ code aborts on a failed \<^verbatim>\<open>assert\<close>, and reading a vector past its end is
  undefined. Both are values of the model. A call that may follow a chain of pointers
  for ever returns an \<open>option\<close>: \<open>None\<close> is the call that never returns.
\<close>

datatype fault = AssertionFailed | OutOfRange | UndefinedBehaviour

type_synonym 'a outcome = "(fault + 'a) option"

abbreviation Ok :: "'a \<Rightarrow> 'a outcome" where
  "Ok x \<equiv> Some (Inr x)"

abbreviation Abort :: "fault \<Rightarrow> 'a outcome" where
  "Abort e \<equiv> Some (Inl e)"

section \<open>Equivalent object groups (file part\_000, namespace REACHABILITY)\<close>

subsection \<open>Data model\<close>

text \<open>
  Objects, equivalent object groups (EOGs) and reachable facts are C++ objects that the
  code compares and links by address. An address is a natural number; the heap maps the
  address of an EOG, and of a reachable fact, to its fields.
\<close>

type_synonym object = nat
type_synonym eog_ref = nat
type_synonym fact_ref = nat

record equivalent_object =
  eo_object :: object
  eo_equivalent_group :: eog_ref
  eo_initial_facts :: "fact_ref list"

text \<open>
  \<^verbatim>\<open>merged_at_iteration_\<close> and the iteration counter are \<^verbatim>\<open>unsigned int\<close>, here 32 bits;
  the constructor sets \<^verbatim>\<open>merged_at_iteration_\<close> to the largest value, \<open>- 1\<close>.
  \<^verbatim>\<open>finger_print_\<close> is an array of \<^verbatim>\<open>finger_print_size_\<close> booleans, here a list.
\<close>

record eog =
  is_grounded :: bool
  link :: "eog_ref option"
  finger_print :: "bool list"
  merged_at_iteration :: "32 word"
  equivalent_objects :: "equivalent_object list"
  reachable_facts :: "fact_ref list"
  size_per_iteration :: "nat list"

text \<open>
  A reachable fact (reachable\_fact.h): the atom, the array \<^verbatim>\<open>term_domain_mapping_\<close> of
  EOG pointers, one per term of the atom, and the tombstone \<^verbatim>\<open>replaced_by_\<close>.
\<close>

record reachable_fact =
  fact_atom :: nat
  term_domain_mapping :: "eog_ref list"
  replaced_by :: "fact_ref option"

record eog_heap =
  eogs :: "eog_ref \<Rightarrow> eog"
  facts :: "fact_ref \<Rightarrow> reachable_fact"
  equivalent_groups :: "eog_ref list"

definition upd_eog :: "eog_ref \<Rightarrow> (eog \<Rightarrow> eog) \<Rightarrow> eog_heap \<Rightarrow> eog_heap" where
  "upd_eog e g s = s\<lparr>eogs := (eogs s)(e := g (eogs s e))\<rparr>"

definition upd_fact :: "fact_ref \<Rightarrow> (reachable_fact \<Rightarrow> reachable_fact) \<Rightarrow> eog_heap \<Rightarrow> eog_heap" where
  "upd_fact f g s = s\<lparr>facts := (facts s)(f := g (facts s f))\<rparr>"

subsection \<open>Roots\<close>

text \<open>
  Modelled from the spec: \<^verbatim>\<open>isRootNode\<close> is declared in a header that is not part of the
  sources; the spec says that the root's link is null.
\<close>

definition isRootNode :: "eog_heap \<Rightarrow> eog_ref \<Rightarrow> bool" where
  "isRootNode s e = (link (eogs s e) = None)"

text \<open>\<^verbatim>\<open>getRootNode\<close> follows \<^verbatim>\<open>link_\<close>; on a cycle of links it never returns.\<close>

partial_function (option) getRootNode :: "eog_heap \<Rightarrow> eog_ref \<Rightarrow> eog_ref option" where
  "getRootNode s e = (case link (eogs s e) of None \<Rightarrow> Some e | Some l \<Rightarrow> getRootNode s l)"

declare getRootNode.simps [code]

subsection \<open>Historical membership\<close>

text \<open>
  The loop of \<^verbatim>\<open>contains(object, iteration)\<close> over the first \<^verbatim>\<open>size_per_iteration_[iteration]\<close>
  entries of \<^verbatim>\<open>equivalent_objects_\<close>; the vector is read with \<^verbatim>\<open>operator[]\<close>, so an index
  past its end is undefined.
\<close>

fun contains_scan :: "equivalent_object list \<Rightarrow> object \<Rightarrow> nat \<Rightarrow> fault + bool" where
  "contains_scan eos obj 0 = Inr False"
| "contains_scan [] obj (Suc n) = Inl OutOfRange"
| "contains_scan (eo # eos) obj (Suc n) =
     (if eo_object eo = obj then Inr True else contains_scan eos obj n)"

partial_function (option) contains_at ::
  "eog_heap \<Rightarrow> eog_ref \<Rightarrow> object \<Rightarrow> 32 word \<Rightarrow> bool outcome" where
  "contains_at s e obj iteration =
     (if merged_at_iteration (eogs s e) \<le> iteration then
        (case link (eogs s e) of
           None \<Rightarrow> Abort AssertionFailed
         | Some l \<Rightarrow> contains_at s l obj iteration)
      else if \<not> unat iteration < length (size_per_iteration (eogs s e)) then
        Abort AssertionFailed
      else
        Some (contains_scan (equivalent_objects (eogs s e)) obj
               (size_per_iteration (eogs s e) ! unat iteration)))"

declare contains_at.simps [code]

text \<open>\<^verbatim>\<open>contains(object)\<close>: the scan of the whole list.\<close>

definition contains_now :: "eog_heap \<Rightarrow> eog_ref \<Rightarrow> object \<Rightarrow> bool" where
  "contains_now s e obj = list_ex (\<lambda>eo. eo_object eo = obj) (equivalent_objects (eogs s e))"

subsection \<open>Reachability of the initial state of an object\<close>

text \<open>
  \<^verbatim>\<open>ReachableFact::isEquivalentTo\<close> and \<^verbatim>\<open>ReachableFact::isIdenticalTo\<close> are declared in
  reachable\_fact.h and defined in a file that is not part of the sources. They are
  parameters of the model: a function of the heap and of the two facts.
\<close>

type_synonym fact_rel = "eog_heap \<Rightarrow> fact_ref \<Rightarrow> fact_ref \<Rightarrow> bool"

definition isInitialStateReachable ::
  "fact_rel \<Rightarrow> eog_heap \<Rightarrow> equivalent_object \<Rightarrow> fact_ref list \<Rightarrow> bool" where
  "isInitialStateReachable isEquivalentTo s eo rfacts =
     list_all (\<lambda>initial_fact. list_ex (\<lambda>reachable_fact. isEquivalentTo s initial_fact reachable_fact) rfacts)
       (eo_initial_facts eo)"

subsection \<open>Reachable facts\<close>

definition isMarkedForRemoval :: "eog_heap \<Rightarrow> fact_ref \<Rightarrow> bool" where
  "isMarkedForRemoval s f = (replaced_by (facts s f) \<noteq> None)"

text \<open>
  Modelled from the spec: \<^verbatim>\<open>ReachableFact::replaceBy\<close> is declared in reachable\_fact.h and
  defined in a file that is not part of the sources; the spec says that \<^verbatim>\<open>replaceBy(r)\<close> sets
  \<^verbatim>\<open>replaced_by = r\<close>.
\<close>

definition replaceBy :: "fact_ref \<Rightarrow> fact_ref \<Rightarrow> eog_heap \<Rightarrow> eog_heap" where
  "replaceBy f replacement = upd_fact f (\<lambda>r. r\<lparr>replaced_by := Some replacement\<rparr>)"

text \<open>The roots of a list of EOGs, in order; \<open>None\<close> when one of the walks never returns.\<close>

fun getRootNodes :: "eog_heap \<Rightarrow> eog_ref list \<Rightarrow> eog_ref list option" where
  "getRootNodes s [] = Some []"
| "getRootNodes s (e # es) =
     (case getRootNode s e of
        None \<Rightarrow> None
      | Some r \<Rightarrow> (case getRootNodes s es of None \<Rightarrow> None | Some rs \<Rightarrow> Some (r # rs)))"

text \<open>
  Modelled from the spec: \<^verbatim>\<open>ReachableFact::updateTermsToRoot\<close> is declared in reachable\_fact.h
  and defined in a file that is not part of the sources; the spec says that it walks the term
  array, replaces each EOG pointer with its root, and returns true iff any slot was changed.
\<close>

definition updateTermsToRoot :: "eog_heap \<Rightarrow> fact_ref \<Rightarrow> (bool \<times> eog_heap) option" where
  "updateTermsToRoot s f =
     (case getRootNodes s (term_domain_mapping (facts s f)) of
        None \<Rightarrow> None
      | Some rs \<Rightarrow>
          Some (rs \<noteq> term_domain_mapping (facts s f),
                upd_fact f (\<lambda>r. r\<lparr>term_domain_mapping := rs\<rparr>) s))"

definition addReachableFact :: "eog_ref \<Rightarrow> fact_ref \<Rightarrow> eog_heap \<Rightarrow> eog_heap" where
  "addReachableFact e f = upd_eog e (\<lambda>g. g\<lparr>reachable_facts := reachable_facts g @ [f]\<rparr>)"

definition addEquivalentObject :: "eog_ref \<Rightarrow> equivalent_object \<Rightarrow> eog_heap \<Rightarrow> eog_heap" where
  "addEquivalentObject e eo = upd_eog e (\<lambda>g. g\<lparr>equivalent_objects := equivalent_objects g @ [eo]\<rparr>)"

subsection \<open>Merging two groups\<close>

text \<open>The idiom \<^verbatim>\<open>if (std::find(...) == affected_groups.end()) affected_groups.push_back(&eog)\<close>.\<close>

definition add_affected :: "eog_ref list \<Rightarrow> eog_ref \<Rightarrow> eog_ref list" where
  "add_affected affected e = (if e \<in> set affected then affected else affected @ [e])"

text \<open>
  The first loop of \<^verbatim>\<open>merge\<close> walks the reachable facts of this group from the last to the
  first. A fact with a term whose EOG is not a root is erased, and every EOG of its terms
  other than this group is added to the affected groups. (The loop erases through
  \<^verbatim>\<open>ri.base() - 1\<close> and goes on with \<^verbatim>\<open>ri\<close>, which on a vector visits each remaining fact once.)
\<close>

definition has_non_root_term :: "eog_heap \<Rightarrow> fact_ref \<Rightarrow> bool" where
  "has_non_root_term s f = list_ex (\<lambda>e. \<not> isRootNode s e) (term_domain_mapping (facts s f))"

definition affected_by_removal :: "eog_heap \<Rightarrow> eog_ref \<Rightarrow> eog_ref list \<Rightarrow> fact_ref \<Rightarrow> eog_ref list" where
  "affected_by_removal s this affected f =
     foldl (\<lambda>a e. if e \<noteq> this then add_affected a e else a) affected
       (term_domain_mapping (facts s f))"

definition merge_remove_stale :: "eog_heap \<Rightarrow> eog_ref \<Rightarrow> eog_ref list \<Rightarrow> eog_heap \<times> eog_ref list" where
  "merge_remove_stale s this affected =
     (upd_eog this (\<lambda>g. g\<lparr>reachable_facts := filter (\<lambda>f. \<not> has_non_root_term s f) (reachable_facts g)\<rparr>) s,
      foldl (\<lambda>a f. if has_non_root_term s f then affected_by_removal s this a f else a) affected
        (rev (reachable_facts (eogs s this))))"

text \<open>
  The second loop of \<^verbatim>\<open>merge\<close> walks the reachable facts of the other group from the first
  to the last; the state is the heap, the local vector \<^verbatim>\<open>updated_facts\<close> and the affected
  groups.
\<close>

fun merge_facts ::
  "fact_rel \<Rightarrow> eog_ref \<Rightarrow> fact_ref list \<Rightarrow> eog_heap \<times> fact_ref list \<times> eog_ref list \<Rightarrow>
   (eog_heap \<times> fact_ref list \<times> eog_ref list) outcome" where
  "merge_facts isIdenticalTo this [] st = Ok st"
| "merge_facts isIdenticalTo this (f # fs) (s, updated_facts, affected) =
     (if isMarkedForRemoval s f then merge_facts isIdenticalTo this fs (s, updated_facts, affected)
      else
        (case updateTermsToRoot s f of
           None \<Rightarrow> None
         | Some (changed, s1) \<Rightarrow>
             if changed then
               (case find (\<lambda>g. isIdenticalTo s1 g f) updated_facts of
                  Some identical_fact \<Rightarrow>
                    if identical_fact = f then Abort AssertionFailed
                    else merge_facts isIdenticalTo this fs
                           (replaceBy f identical_fact s1, updated_facts,
                            foldl add_affected affected (term_domain_mapping (facts s1 f)))
                | None \<Rightarrow>
                    merge_facts isIdenticalTo this fs
                      (addReachableFact this f s1, updated_facts @ [f], affected))
             else merge_facts isIdenticalTo this fs (addReachableFact this f s1, updated_facts, affected)))"

definition merge ::
  "fact_rel \<Rightarrow> eog_heap \<Rightarrow> eog_ref \<Rightarrow> eog_ref \<Rightarrow> eog_ref list \<Rightarrow> (eog_heap \<times> eog_ref list) outcome" where
  "merge isIdenticalTo s this other_group affected =
     (if link (eogs s other_group) \<noteq> None then Abort AssertionFailed
      else
        let s1 = upd_eog this (\<lambda>g. g\<lparr>equivalent_objects :=
                   equivalent_objects g @ equivalent_objects (eogs s other_group)\<rparr>) s;
            s2 = upd_eog other_group (\<lambda>g. g\<lparr>link := Some this\<rparr>) s1;
            (s3, affected1) = merge_remove_stale s2 this affected
        in (case merge_facts isIdenticalTo this (reachable_facts (eogs s3 other_group))
                   (s3, reachable_facts (eogs s3 this), affected1) of
              None \<Rightarrow> None
            | Some (Inl e) \<Rightarrow> Abort e
            | Some (Inr (s4, updated_facts, affected2)) \<Rightarrow> Ok (s4, affected2)))"

text \<open>
  \<^verbatim>\<open>tryToMergeWith\<close>. The two loops over the equivalent objects leave at the first object
  whose initial state is reachable: they compute an existential.
\<close>

definition can_reach_initial_state :: "fact_rel \<Rightarrow> eog_heap \<Rightarrow> eog_ref \<Rightarrow> eog_ref \<Rightarrow> bool" where
  "can_reach_initial_state isEquivalentTo s objects_of facts_of =
     list_ex (\<lambda>eo. isInitialStateReachable isEquivalentTo s eo (reachable_facts (eogs s facts_of)))
       (equivalent_objects (eogs s objects_of))"

partial_function (option) tryToMergeWith ::
  "fact_rel \<Rightarrow> fact_rel \<Rightarrow> eog_heap \<Rightarrow> eog_ref \<Rightarrow> eog_ref \<Rightarrow> eog_ref list \<Rightarrow> 32 word \<Rightarrow>
   (bool \<times> eog_heap \<times> eog_ref list) outcome" where
  "tryToMergeWith isEquivalentTo isIdenticalTo s this other_group affected iteration =
     (if is_grounded (eogs s this) \<or> is_grounded (eogs s other_group) then Ok (False, s, affected)
      else
        (case getRootNode s this of
           None \<Rightarrow> None
         | Some this_root_node \<Rightarrow>
        (case getRootNode s other_group of
           None \<Rightarrow> None
         | Some other_root_node \<Rightarrow>
             if this_root_node = other_root_node then Ok (True, s, affected)
             else if link (eogs s this) \<noteq> None then
               tryToMergeWith isEquivalentTo isIdenticalTo s this_root_node other_root_node affected iteration
             else if link (eogs s other_group) \<noteq> None then
               tryToMergeWith isEquivalentTo isIdenticalTo s this other_root_node affected iteration
             else if length (finger_print (eogs s this)) \<noteq> length (finger_print (eogs s other_group)) then
               Abort AssertionFailed
             else if finger_print (eogs s this) \<noteq> finger_print (eogs s other_group) then
               Ok (False, s, affected)
             else if \<not> can_reach_initial_state isEquivalentTo s other_group this then
               Ok (False, s, affected)
             else if \<not> can_reach_initial_state isEquivalentTo s this other_group then
               Ok (False, s, affected)
             else
               (case merge isIdenticalTo s this other_group affected of
                  None \<Rightarrow> None
                | Some (Inl e) \<Rightarrow> Abort e
                | Some (Inr (s', affected')) \<Rightarrow>
                    Ok (True, upd_eog other_group (\<lambda>g. g\<lparr>merged_at_iteration := iteration\<rparr>) s',
                        affected')))))"

declare tryToMergeWith.simps [code]

subsection \<open>Updating the equivalences\<close>








subsection \<open>Construction\<close>

text \<open>
  The constructor of an EOG: no link, never merged, no object and no fact yet. The finger
  print is computed from the types of the terms of the graph, which the claims do not
  need; it is given.
\<close>

definition new_eog :: "bool list \<Rightarrow> bool \<Rightarrow> eog" where
  "new_eog fp grounded =
     \<lparr>is_grounded = grounded, link = None, finger_print = fp, merged_at_iteration = - 1,
      equivalent_objects = [], reachable_facts = [], size_per_iteration = []\<rparr>"

definition new_fact :: "nat \<Rightarrow> eog_ref list \<Rightarrow> reachable_fact" where
  "new_fact a ts = \<lparr>fact_atom = a, term_domain_mapping = ts, replaced_by = None\<rparr>"

definition new_object :: "object \<Rightarrow> eog_ref \<Rightarrow> fact_ref list \<Rightarrow> equivalent_object" where
  "new_object obj e fs = \<lparr>eo_object = obj, eo_equivalent_group = e, eo_initial_facts = fs\<rparr>"

subsection \<open>Example heaps and example relations on facts\<close>

text \<open>
  A heap after two iterations: the group 1 of the object 10 was merged into the group 0 of
  the object 20 at iteration 1.
\<close>

definition history_heap :: eog_heap where
  "history_heap =
     \<lparr>eogs = (\<lambda>_. new_eog [] False)
        (0 := (new_eog [True] False)
                \<lparr>equivalent_objects := [new_object 20 0 [], new_object 10 1 []],
                 size_per_iteration := [1, 2]\<rparr>,
         1 := (new_eog [True] False)
                \<lparr>link := Some 0, merged_at_iteration := 1,
                 equivalent_objects := [new_object 10 1 []],
                 size_per_iteration := [1, 1]\<rparr>),
      facts = (\<lambda>_. new_fact 0 []),
      equivalent_groups = [0, 1]\<rparr>"

definition same_atom :: fact_rel where
  "same_atom s f g = (fact_atom (facts s f) = fact_atom (facts s g))"

definition same_atom_and_terms :: fact_rel where
  "same_atom_and_terms s f g =
     (fact_atom (facts s f) = fact_atom (facts s g) \<and>
      term_domain_mapping (facts s f) = term_domain_mapping (facts s g))"

definition trucks_heap :: eog_heap where
  "trucks_heap =
     \<lparr>eogs = (\<lambda>_. new_eog [] True)
        (0 := (new_eog [True, False] False)
                \<lparr>equivalent_objects := [new_object 1 0 [0]], reachable_facts := [0]\<rparr>,
         1 := (new_eog [True, False] False)
                \<lparr>equivalent_objects := [new_object 2 1 [1]], reachable_facts := [1]\<rparr>,
         2 := (new_eog [False, True] False)
                \<lparr>equivalent_objects := [new_object 3 2 [0, 1]], reachable_facts := [0, 1]\<rparr>),
      facts = (\<lambda>_. new_fact 0 [])(0 := new_fact 7 [0, 2], 1 := new_fact 7 [1, 2]),
      equivalent_groups = [0, 1, 2]\<rparr>"

definition idle_heap :: eog_heap where
  "idle_heap =
     \<lparr>eogs = (\<lambda>_. new_eog [] True)
        (0 := (new_eog [True] False)\<lparr>equivalent_objects := [new_object 1 0 []]\<rparr>,
         1 := (new_eog [True] False)\<lparr>equivalent_objects := [new_object 2 1 []]\<rparr>),
      facts = (\<lambda>_. new_fact 0 []),
      equivalent_groups = [0, 1]\<rparr>"

subsection \<open>Relations between two heaps, for the proofs\<close>

definition same_groups :: "eog_heap \<Rightarrow> eog_heap \<Rightarrow> bool" where
  "same_groups s s' \<longleftrightarrow>
     equivalent_groups s' = equivalent_groups s \<and>
     (\<forall>e. link (eogs s' e) = link (eogs s e) \<and>
          is_grounded (eogs s' e) = is_grounded (eogs s e) \<and>
          finger_print (eogs s' e) = finger_print (eogs s e) \<and>
          merged_at_iteration (eogs s' e) = merged_at_iteration (eogs s e) \<and>
          equivalent_objects (eogs s' e) = equivalent_objects (eogs s e) \<and>
          size_per_iteration (eogs s' e) = size_per_iteration (eogs s e))"

text \<open>
  What the merges of the turn of one group can do to the history of sizes: nothing. Only the
  list of equivalent objects of that group changes, and it grows; a group that is not a root
  keeps its objects and its link.
\<close>

definition grows :: "eog_ref \<Rightarrow> eog_heap \<Rightarrow> eog_heap \<Rightarrow> bool" where
  "grows this s s' \<longleftrightarrow>
     equivalent_groups s' = equivalent_groups s \<and>
     (\<forall>e. size_per_iteration (eogs s' e) = size_per_iteration (eogs s e) \<and>
          length (equivalent_objects (eogs s e)) \<le> length (equivalent_objects (eogs s' e)) \<and>
          (e \<noteq> this \<longrightarrow> equivalent_objects (eogs s' e) = equivalent_objects (eogs s e)) \<and>
          (link (eogs s e) \<noteq> None \<longrightarrow>
             link (eogs s' e) = link (eogs s e) \<and>
             equivalent_objects (eogs s' e) = equivalent_objects (eogs s e)))"


subsection \<open>Root closure and the invariants of its proof\<close>

definition terms_of :: "eog_heap \<Rightarrow> fact_ref \<Rightarrow> eog_ref set" where
  "terms_of s f = set (term_domain_mapping (facts s f))"



text \<open>The invariant of the second loop of merge: B was linked to A, and rest are the facts
  of B that the loop has not visited yet.\<close>

definition pending :: "eog_heap \<Rightarrow> eog_ref \<Rightarrow> eog_ref \<Rightarrow> fact_ref \<Rightarrow> bool" where
  "pending s A B f \<longleftrightarrow>
     (\<forall>x \<in> terms_of s f. isRootNode s x \<or> x = B) \<and>
     (\<forall>x \<in> terms_of s f. x \<in> set (equivalent_groups s) \<longrightarrow> x \<noteq> B \<longrightarrow>
        f \<in> set (reachable_facts (eogs s x)) \<or> (x = A \<and> B \<in> terms_of s f))"



subsection \<open>The manager: construction, initial facts and calls\<close>










text \<open>
  The invariant of \<^verbatim>\<open>initialise\<close> on the manager that was just constructed for \<open>n\<close> objects:
  no group is linked, every group of an object holds that one object, whose initial facts
  are reachable facts of the group, every reachable fact of a group is one of the facts \<open>all\<close>
  and has the group in a term slot, or has no term and is in the last group, and the pairs
  \<open>P\<close> of a fact and a group are registered.
\<close>

definition initialising ::
  "nat \<Rightarrow> (fact_ref \<Rightarrow> reachable_fact) \<Rightarrow> fact_ref set \<Rightarrow> (fact_ref \<times> eog_ref) set \<Rightarrow> eog_heap \<Rightarrow> bool" where
  "initialising n F all P s \<longleftrightarrow>
     facts s = F \<and> equivalent_groups s = [0 ..< n] @ [n] \<and>
     (\<forall>e. link (eogs s e) = None) \<and>
     (\<forall>k < n. \<exists>eo. equivalent_objects (eogs s k) = [eo] \<and> eo_equivalent_group eo = k \<and>
                   set (eo_initial_facts eo) \<subseteq> set (reachable_facts (eogs s k))) \<and>
     (\<forall>e f. f \<in> set (reachable_facts (eogs s e)) \<longrightarrow>
        f \<in> all \<and> (if term_domain_mapping (F f) = [] then e = n
                   else e \<in> set (term_domain_mapping (F f)))) \<and>
     (\<forall>(f, x) \<in> P. f \<in> set (reachable_facts (eogs s x)))"

section \<open>Properties\<close>

lemma contains_scan_take:
  "n \<le> length eos \<Longrightarrow> contains_scan eos obj n = Inr (obj \<in> eo_object ` set (take n eos))"
proof (induction eos obj n rule: contains_scan.induct)
  case (1 eos obj)
  show ?case by simp
next
  case (2 obj n)
  then show ?case by simp
next
  case (3 eo eos obj n)
  then show ?case by auto
qed

text \<open>
  Claim C6. The historical query \<^verbatim>\<open>contains(object, i)\<close> on an EOG returns the result of the
  same query on the link target whenever \<^verbatim>\<open>merged_at_iteration_ \<le> i\<close> (the code asserts that
  the link is set), and otherwise returns true exactly when the object occurs among the first
  \<^verbatim>\<open>size_per_iteration_[i]\<close> entries of the ordered list \<^verbatim>\<open>equivalent_objects_\<close> (the code
  asserts that the snapshot \<open>i\<close> exists; the snapshot is a length of a prefix of the list).
\<close>

theorem C6_contains_historical:
  "(merged_at_iteration (eogs s e) \<le> i \<and> link (eogs s e) = Some l \<longrightarrow>
      contains_at s e obj i = contains_at s l obj i) \<and>
   (\<not> merged_at_iteration (eogs s e) \<le> i \<and> unat i < length (size_per_iteration (eogs s e)) \<and>
    size_per_iteration (eogs s e) ! unat i \<le> length (equivalent_objects (eogs s e)) \<longrightarrow>
      contains_at s e obj i =
        Ok (obj \<in> eo_object ` set (take (size_per_iteration (eogs s e) ! unat i)
                                       (equivalent_objects (eogs s e)))))"
  by (subst contains_at.simps, subst (2) contains_at.simps) (simp add: contains_scan_take)

lemma max_word_not_le: "\<not> (- 1 :: 32 word) \<le> 1" "\<not> (- 1 :: 32 word) \<le> 0"
  by code_simp+

theorem C6_contains_historical_witness:
  "contains_at history_heap 1 10 1 = contains_at history_heap 0 10 1 \<and>
   contains_at history_heap 0 10 1 = Ok True \<and>
   contains_at history_heap 0 10 0 = Ok False"
proof -
  have a: "merged_at_iteration (eogs history_heap 1) \<le> 1 \<and> link (eogs history_heap 1) = Some 0"
    by (simp add: history_heap_def new_eog_def)
  have b: "\<not> merged_at_iteration (eogs history_heap 0) \<le> 1 \<and>
           unat (1 :: 32 word) < length (size_per_iteration (eogs history_heap 0)) \<and>
           size_per_iteration (eogs history_heap 0) ! unat (1 :: 32 word)
             \<le> length (equivalent_objects (eogs history_heap 0))"
    by (simp add: history_heap_def new_eog_def max_word_not_le)
  have c: "\<not> merged_at_iteration (eogs history_heap 0) \<le> 0 \<and>
           unat (0 :: 32 word) < length (size_per_iteration (eogs history_heap 0)) \<and>
           size_per_iteration (eogs history_heap 0) ! unat (0 :: 32 word)
             \<le> length (equivalent_objects (eogs history_heap 0))"
    by (simp add: history_heap_def new_eog_def max_word_not_le)
  have "contains_at history_heap 1 10 1 = contains_at history_heap 0 10 1"
    using C6_contains_historical [of history_heap 1 1 0 10] a by blast
  moreover have "contains_at history_heap 0 10 1 = Ok True"
    using C6_contains_historical [of history_heap 0 1 0 10] b
    by (simp add: history_heap_def new_eog_def new_object_def)
  moreover have "contains_at history_heap 0 10 0 = Ok False"
    using C6_contains_historical [of history_heap 0 0 0 10] c
    by (simp add: history_heap_def new_eog_def new_object_def)
  ultimately show ?thesis by blast
qed

lemma eogs_upd_eog [simp]: "eogs (upd_eog e g s) = (eogs s)(e := g (eogs s e))"
  and facts_upd_eog [simp]: "facts (upd_eog e g s) = facts s"
  and groups_upd_eog [simp]: "equivalent_groups (upd_eog e g s) = equivalent_groups s"
  by (simp_all add: upd_eog_def)

lemma eogs_upd_fact [simp]: "eogs (upd_fact f g s) = eogs s"
  and facts_upd_fact [simp]: "facts (upd_fact f g s) = (facts s)(f := g (facts s f))"
  and groups_upd_fact [simp]: "equivalent_groups (upd_fact f g s) = equivalent_groups s"
  by (simp_all add: upd_fact_def)

lemma getRootNode_root: "link (eogs s e) = None \<Longrightarrow> getRootNode s e = Some e"
  by (subst getRootNode.simps) simp


lemma tryToMergeWith_roots:
  assumes "link (eogs s this) = None" and "link (eogs s other) = None" and "this \<noteq> other"
  shows "tryToMergeWith isEq isId s this other affected iteration =
     (if is_grounded (eogs s this) \<or> is_grounded (eogs s other) then Ok (False, s, affected)
      else if length (finger_print (eogs s this)) \<noteq> length (finger_print (eogs s other)) then
        Abort AssertionFailed
      else if finger_print (eogs s this) \<noteq> finger_print (eogs s other) then Ok (False, s, affected)
      else if \<not> can_reach_initial_state isEq s other this then Ok (False, s, affected)
      else if \<not> can_reach_initial_state isEq s this other then Ok (False, s, affected)
      else
        (case merge isId s this other affected of
           None \<Rightarrow> None
         | Some (Inl e) \<Rightarrow> Abort e
         | Some (Inr (s', affected')) \<Rightarrow>
             Ok (True, upd_eog other (\<lambda>g. g\<lparr>merged_at_iteration := iteration\<rparr>) s', affected')))"
  using assms by (subst tryToMergeWith.simps) (simp add: getRootNode_root)


lemma same_groups_refl [simp]: "same_groups s s"
  by (simp add: same_groups_def)

lemma same_groups_trans: "same_groups s s1 \<Longrightarrow> same_groups s1 s2 \<Longrightarrow> same_groups s s2"
  by (simp add: same_groups_def)

lemma same_groups_upd_fact [simp]: "same_groups s (upd_fact f g s)"
  by (simp add: same_groups_def)

lemma same_groups_addReachableFact [simp]: "same_groups s (addReachableFact e f s)"
  by (simp add: same_groups_def addReachableFact_def)

lemma same_groups_replaceBy [simp]: "same_groups s (replaceBy f g s)"
  by (simp add: replaceBy_def)

lemma updateTermsToRoot_same_groups:
  "updateTermsToRoot s f = Some (c, s') \<Longrightarrow> same_groups s s'"
  by (auto simp: updateTermsToRoot_def split: option.splits)

lemma same_groups_via_add:
  "same_groups s b \<Longrightarrow> same_groups (addReachableFact e f b) s' \<Longrightarrow> same_groups s s'"
  by (simp add: same_groups_def addReachableFact_def)

lemma same_groups_via_replace:
  "same_groups s b \<Longrightarrow> same_groups (replaceBy f g b) s' \<Longrightarrow> same_groups s s'"
  by (simp add: same_groups_def replaceBy_def)

lemma merge_facts_same_groups:
  "merge_facts isId this fs (s, u, a) = Ok (s', u', a') \<Longrightarrow> same_groups s s'"
proof (induction fs arbitrary: s u a)
  case Nil
  then show ?case by simp
next
  case (Cons f fs)
  from Cons.prems show ?case
    by (auto split: if_splits option.splits
             dest!: Cons.IH updateTermsToRoot_same_groups
             intro: same_groups_via_add same_groups_via_replace)
qed

lemma merge_remove_stale_same_groups':
  "same_groups s (fst (merge_remove_stale s this a))"
  by (simp add: merge_remove_stale_def same_groups_def)

lemma merge_remove_stale_same_groups:
  "merge_remove_stale s this a = (s', a') \<Longrightarrow> same_groups s s'"
  using merge_remove_stale_same_groups' [of s this a] by simp

text \<open>The effect of a merge on the fields other than the reachable facts.\<close>

lemma merge_fields:
  assumes "merge isId s this other a = Ok (s', a')"
  shows "equivalent_groups s' = equivalent_groups s"
    and "link (eogs s' e) = (if e = other then Some this else link (eogs s e))"
    and "size_per_iteration (eogs s' e) = size_per_iteration (eogs s e)"
    and "merged_at_iteration (eogs s' e) = merged_at_iteration (eogs s e)"
    and "is_grounded (eogs s' e) = is_grounded (eogs s e)"
    and "finger_print (eogs s' e) = finger_print (eogs s e)"
    and "equivalent_objects (eogs s' e) =
           (if e = this then equivalent_objects (eogs s this) @ equivalent_objects (eogs s other)
            else equivalent_objects (eogs s e))"
    and "link (eogs s other) = None"
proof -
  define s2 where "s2 = upd_eog other (\<lambda>g. g\<lparr>link := Some this\<rparr>)
      (upd_eog this (\<lambda>g. g\<lparr>equivalent_objects :=
                   equivalent_objects g @ equivalent_objects (eogs s other)\<rparr>) s)"
  from assms have l: "link (eogs s other) = None"
    by (auto simp: merge_def split: if_splits)
  obtain s3 a1 where r: "merge_remove_stale s2 this a = (s3, a1)" by force
  with assms l obtain u' where
    m: "merge_facts isId this (reachable_facts (eogs s3 other)) (s3, reachable_facts (eogs s3 this), a1)
        = Ok (s', u', a')"
    by (auto simp: merge_def Let_def s2_def split: option.splits sum.splits)
  have g: "same_groups s2 s'"
    using merge_remove_stale_same_groups [OF r] merge_facts_same_groups [OF m]
    by (rule same_groups_trans)
  show "link (eogs s other) = None" by (rule l)
  show "equivalent_groups s' = equivalent_groups s"
    using g by (simp add: same_groups_def s2_def)
  show "link (eogs s' e) = (if e = other then Some this else link (eogs s e))"
    using g by (simp add: same_groups_def s2_def)
  show "size_per_iteration (eogs s' e) = size_per_iteration (eogs s e)"
    using g by (simp add: same_groups_def s2_def)
  show "merged_at_iteration (eogs s' e) = merged_at_iteration (eogs s e)"
    using g by (simp add: same_groups_def s2_def)
  show "is_grounded (eogs s' e) = is_grounded (eogs s e)"
    using g by (simp add: same_groups_def s2_def)
  show "finger_print (eogs s' e) = finger_print (eogs s e)"
    using g by (simp add: same_groups_def s2_def)
  show "equivalent_objects (eogs s' e) =
           (if e = this then equivalent_objects (eogs s this) @ equivalent_objects (eogs s other)
            else equivalent_objects (eogs s e))"
    using g by (simp add: same_groups_def s2_def)
qed

lemma can_reach_initial_state_iff:
  "can_reach_initial_state isEq s objects_of facts_of \<longleftrightarrow>
     (\<exists>eo \<in> set (equivalent_objects (eogs s objects_of)).
        \<forall>i \<in> set (eo_initial_facts eo). \<exists>r \<in> set (reachable_facts (eogs s facts_of)). isEq s i r)"
  by (simp add: can_reach_initial_state_def isInitialStateReachable_def list_ex_iff list_all_iff)

text \<open>
  Claim C3. For two distinct root EOGs \<open>A\<close> and \<open>B\<close> (their finger prints have the same
  size, which the code asserts), \<^verbatim>\<open>A.tryToMergeWith(B)\<close> calls \<^verbatim>\<open>merge\<close> and then records
  \<^verbatim>\<open>B.merged_at_iteration_ = iteration\<close> if and only if neither group is grounded, the finger
  prints are equal, some equivalent object of \<open>B\<close> has every initial fact matched by a reachable
  fact of \<open>A\<close>, and some equivalent object of \<open>A\<close> has every initial fact matched by a reachable
  fact of \<open>B\<close>. When the call returns, it returned true with \<open>B.link = A\<close> and
  \<open>B.merged_at_iteration = iteration\<close> exactly under that condition, and otherwise the heap is
  unchanged.
\<close>

theorem C3_tryToMergeWith_iff:
  assumes "link (eogs s A) = None" and "link (eogs s B) = None" and "A \<noteq> B"
    and "length (finger_print (eogs s A)) = length (finger_print (eogs s B))"
  shows
   "tryToMergeWith isEq isId s A B affected iteration =
      (if \<not> is_grounded (eogs s A) \<and> \<not> is_grounded (eogs s B) \<and>
          finger_print (eogs s A) = finger_print (eogs s B) \<and>
          (\<exists>eo \<in> set (equivalent_objects (eogs s B)).
             \<forall>i \<in> set (eo_initial_facts eo). \<exists>r \<in> set (reachable_facts (eogs s A)). isEq s i r) \<and>
          (\<exists>eo \<in> set (equivalent_objects (eogs s A)).
             \<forall>i \<in> set (eo_initial_facts eo). \<exists>r \<in> set (reachable_facts (eogs s B)). isEq s i r)
       then (case merge isId s A B affected of
               None \<Rightarrow> None
             | Some (Inl e) \<Rightarrow> Abort e
             | Some (Inr (s', affected')) \<Rightarrow>
                 Ok (True, upd_eog B (\<lambda>g. g\<lparr>merged_at_iteration := iteration\<rparr>) s', affected'))
       else Ok (False, s, affected)) \<and>
    (\<forall>merged s' affected'.
       tryToMergeWith isEq isId s A B affected iteration = Ok (merged, s', affected') \<longrightarrow>
         ((merged \<and> link (eogs s' B) = Some A \<and> merged_at_iteration (eogs s' B) = iteration) \<longleftrightarrow>
          (\<not> is_grounded (eogs s A) \<and> \<not> is_grounded (eogs s B) \<and>
           finger_print (eogs s A) = finger_print (eogs s B) \<and>
           (\<exists>eo \<in> set (equivalent_objects (eogs s B)).
              \<forall>i \<in> set (eo_initial_facts eo). \<exists>r \<in> set (reachable_facts (eogs s A)). isEq s i r) \<and>
           (\<exists>eo \<in> set (equivalent_objects (eogs s A)).
              \<forall>i \<in> set (eo_initial_facts eo). \<exists>r \<in> set (reachable_facts (eogs s B)). isEq s i r))) \<and>
         (\<not> merged \<longrightarrow> s' = s))"
proof -
  let ?c = "\<not> is_grounded (eogs s A) \<and> \<not> is_grounded (eogs s B) \<and>
          finger_print (eogs s A) = finger_print (eogs s B) \<and>
          (\<exists>eo \<in> set (equivalent_objects (eogs s B)).
             \<forall>i \<in> set (eo_initial_facts eo). \<exists>r \<in> set (reachable_facts (eogs s A)). isEq s i r) \<and>
          (\<exists>eo \<in> set (equivalent_objects (eogs s A)).
             \<forall>i \<in> set (eo_initial_facts eo). \<exists>r \<in> set (reachable_facts (eogs s B)). isEq s i r)"
  let ?m = "case merge isId s A B affected of
               None \<Rightarrow> None
             | Some (Inl e) \<Rightarrow> Abort e
             | Some (Inr (s', affected')) \<Rightarrow>
                 Ok (True, upd_eog B (\<lambda>g. g\<lparr>merged_at_iteration := iteration\<rparr>) s', affected')"
  have eq: "tryToMergeWith isEq isId s A B affected iteration = (if ?c then ?m else Ok (False, s, affected))"
    using assms(4)
    by (simp add: tryToMergeWith_roots [OF assms(1,2,3)] can_reach_initial_state_iff)
  have post: "(merged \<and> link (eogs s' B) = Some A \<and> merged_at_iteration (eogs s' B) = iteration) = ?c
              \<and> (\<not> merged \<longrightarrow> s' = s)"
    if r: "tryToMergeWith isEq isId s A B affected iteration = Ok (merged, s', affected')"
    for merged s' affected'
  proof (cases ?c)
    case True
    with eq r have "?m = Ok (merged, s', affected')" by simp
    then obtain s1 a1 where m: "merge isId s A B affected = Ok (s1, a1)"
      and s': "s' = upd_eog B (\<lambda>g. g\<lparr>merged_at_iteration := iteration\<rparr>) s1" and "merged"
      by (auto split: option.splits sum.splits)
    with True merge_fields(2) [OF m, of B] show ?thesis by simp
  next
    case False
    with eq r have "merged = False" "s' = s" by simp_all
    with False assms(2) show ?thesis by simp
  qed
  from eq post show ?thesis by blast
qed

text \<open>
  Claim C9. For an equivalent object with no initial fact, \<^verbatim>\<open>isInitialStateReachable\<close> is true
  for every list of reachable facts. Consequently, when two distinct root groups that are not
  grounded and have equal finger prints each hold an object with no initial fact,
  \<^verbatim>\<open>tryToMergeWith\<close> goes on to \<^verbatim>\<open>merge\<close> whatever their reachable facts are.
\<close>

theorem C9_no_initial_facts:
  "(eo_initial_facts eo = [] \<longrightarrow> isInitialStateReachable isEq s eo rfacts) \<and>
   (link (eogs s A) = None \<and> link (eogs s B) = None \<and> A \<noteq> B \<and>
    \<not> is_grounded (eogs s A) \<and> \<not> is_grounded (eogs s B) \<and>
    finger_print (eogs s A) = finger_print (eogs s B) \<and>
    (\<exists>eo \<in> set (equivalent_objects (eogs s A)). eo_initial_facts eo = []) \<and>
    (\<exists>eo \<in> set (equivalent_objects (eogs s B)). eo_initial_facts eo = []) \<longrightarrow>
    tryToMergeWith isEq isId s A B affected iteration =
      (case merge isId s A B affected of
         None \<Rightarrow> None
       | Some (Inl e) \<Rightarrow> Abort e
       | Some (Inr (s', affected')) \<Rightarrow>
           Ok (True, upd_eog B (\<lambda>g. g\<lparr>merged_at_iteration := iteration\<rparr>) s', affected')))"
proof (intro conjI impI)
  assume "eo_initial_facts eo = []"
  then show "isInitialStateReachable isEq s eo rfacts"
    by (simp add: isInitialStateReachable_def)
next
  assume h: "link (eogs s A) = None \<and> link (eogs s B) = None \<and> A \<noteq> B \<and>
    \<not> is_grounded (eogs s A) \<and> \<not> is_grounded (eogs s B) \<and>
    finger_print (eogs s A) = finger_print (eogs s B) \<and>
    (\<exists>eo \<in> set (equivalent_objects (eogs s A)). eo_initial_facts eo = []) \<and>
    (\<exists>eo \<in> set (equivalent_objects (eogs s B)). eo_initial_facts eo = [])"
  then have "can_reach_initial_state isEq s A B" "can_reach_initial_state isEq s B A"
    unfolding can_reach_initial_state_iff by force+
  with h show "tryToMergeWith isEq isId s A B affected iteration =
      (case merge isId s A B affected of
         None \<Rightarrow> None
       | Some (Inl e) \<Rightarrow> Abort e
       | Some (Inr (s', affected')) \<Rightarrow>
           Ok (True, upd_eog B (\<lambda>g. g\<lparr>merged_at_iteration := iteration\<rparr>) s', affected'))"
    by (simp add: tryToMergeWith_roots)
qed

lemma grows_refl [simp]: "grows this s s"
  by (simp add: grows_def)












text \<open>The two trucks at the same location are merged at iteration 5.\<close>

theorem C3_tryToMergeWith_iff_witness:
  "\<exists>s' affected'.
     tryToMergeWith same_atom same_atom_and_terms trucks_heap 0 1 [] 5 = Ok (True, s', affected') \<and>
     link (eogs s' 1) = Some 0 \<and> merged_at_iteration (eogs s' 1) = 5"
proof -
  have h: "link (eogs trucks_heap 0) = None" "link (eogs trucks_heap 1) = None" "(0::nat) \<noteq> 1"
    "length (finger_print (eogs trucks_heap 0)) = length (finger_print (eogs trucks_heap 1))"
    by (simp_all add: trucks_heap_def new_eog_def)
  have c: "\<not> is_grounded (eogs trucks_heap 0) \<and> \<not> is_grounded (eogs trucks_heap 1) \<and>
          finger_print (eogs trucks_heap 0) = finger_print (eogs trucks_heap 1) \<and>
          (\<exists>eo \<in> set (equivalent_objects (eogs trucks_heap 1)).
             \<forall>i \<in> set (eo_initial_facts eo).
               \<exists>r \<in> set (reachable_facts (eogs trucks_heap 0)). same_atom trucks_heap i r) \<and>
          (\<exists>eo \<in> set (equivalent_objects (eogs trucks_heap 0)).
             \<forall>i \<in> set (eo_initial_facts eo).
               \<exists>r \<in> set (reachable_facts (eogs trucks_heap 1)). same_atom trucks_heap i r)"
    by (simp add: trucks_heap_def new_eog_def new_object_def new_fact_def same_atom_def)
  have "case tryToMergeWith same_atom same_atom_and_terms trucks_heap 0 1 [] 5 of
          Some (Inr r) \<Rightarrow> True | _ \<Rightarrow> False"
    by code_simp
  then obtain merged s' affected' where
    r: "tryToMergeWith same_atom same_atom_and_terms trucks_heap 0 1 [] 5 = Ok (merged, s', affected')"
    by (auto split: option.splits sum.splits)
  from C3_tryToMergeWith_iff [OF h, of same_atom same_atom_and_terms "[]" 5] r c
  have "merged \<and> link (eogs s' 1) = Some 0 \<and> merged_at_iteration (eogs s' 1) = 5"
    by blast
  with r show ?thesis by auto
qed

text \<open>Two objects that occur in no initial fact are merged.\<close>

theorem C9_no_initial_facts_witness:
  "isInitialStateReachable same_atom idle_heap (new_object 1 0 []) [3, 4] \<and>
   (\<exists>s' affected'.
      tryToMergeWith same_atom same_atom_and_terms idle_heap 0 1 [] 0 = Ok (True, s', affected'))"
proof -
  have a: "eo_initial_facts (new_object 1 0 []) = []"
    by (simp add: new_object_def)
  have b: "link (eogs idle_heap 0) = None \<and> link (eogs idle_heap 1) = None \<and> (0::nat) \<noteq> 1 \<and>
    \<not> is_grounded (eogs idle_heap 0) \<and> \<not> is_grounded (eogs idle_heap 1) \<and>
    finger_print (eogs idle_heap 0) = finger_print (eogs idle_heap 1) \<and>
    (\<exists>eo \<in> set (equivalent_objects (eogs idle_heap 0)). eo_initial_facts eo = []) \<and>
    (\<exists>eo \<in> set (equivalent_objects (eogs idle_heap 1)). eo_initial_facts eo = [])"
    by (simp add: idle_heap_def new_eog_def new_object_def)
  have m: "case merge same_atom_and_terms idle_heap 0 1 [] of Some (Inr r) \<Rightarrow> True | _ \<Rightarrow> False"
    by code_simp
  from C9_no_initial_facts [of "new_object 1 0 []" same_atom idle_heap "[3, 4]" 0 1
        same_atom_and_terms "[]" 0] a b
  have "isInitialStateReachable same_atom idle_heap (new_object 1 0 []) [3, 4]"
    and "tryToMergeWith same_atom same_atom_and_terms idle_heap 0 1 [] 0 =
      (case merge same_atom_and_terms idle_heap 0 1 [] of
         None \<Rightarrow> None
       | Some (Inl e) \<Rightarrow> Abort e
       | Some (Inr (s', affected')) \<Rightarrow>
           Ok (True, upd_eog 1 (\<lambda>g. g\<lparr>merged_at_iteration := 0\<rparr>) s', affected'))"
    by blast+
  with m show ?thesis
    by (auto split: option.splits sum.splits)
qed







lemma isRootNode_upd_fact [simp]: "isRootNode (upd_fact f g s) e = isRootNode s e"
  by (simp add: isRootNode_def)

lemma isRootNode_addReachableFact [simp]: "isRootNode (addReachableFact A f s) e = isRootNode s e"
  by (simp add: isRootNode_def addReachableFact_def)

lemma isRootNode_replaceBy [simp]: "isRootNode (replaceBy f g s) e = isRootNode s e"
  by (simp add: replaceBy_def)

lemma groups_addReachableFact [simp]:
  "equivalent_groups (addReachableFact A f s) = equivalent_groups s"
  by (simp add: addReachableFact_def)

lemma groups_replaceBy [simp]: "equivalent_groups (replaceBy f g s) = equivalent_groups s"
  by (simp add: replaceBy_def)

lemma rfacts_addReachableFact [simp]:
  "reachable_facts (eogs (addReachableFact A f s) e) =
     (if e = A then reachable_facts (eogs s A) @ [f] else reachable_facts (eogs s e))"
  by (simp add: addReachableFact_def)

lemma rfacts_upd_fact [simp]: "reachable_facts (eogs (upd_fact f g s) e) = reachable_facts (eogs s e)"
  by simp

lemma rfacts_replaceBy [simp]: "reachable_facts (eogs (replaceBy f g s) e) = reachable_facts (eogs s e)"
  by (simp add: replaceBy_def)

lemma marked_addReachableFact [simp]:
  "isMarkedForRemoval (addReachableFact A f s) h = isMarkedForRemoval s h"
  by (simp add: isMarkedForRemoval_def addReachableFact_def)

lemma marked_replaceBy [simp]:
  "isMarkedForRemoval (replaceBy f g s) h = (h = f \<or> isMarkedForRemoval s h)"
  by (simp add: isMarkedForRemoval_def replaceBy_def)

lemma marked_upd_terms [simp]:
  "isMarkedForRemoval (upd_fact f (\<lambda>r. r\<lparr>term_domain_mapping := ts\<rparr>) s) h = isMarkedForRemoval s h"
  by (simp add: isMarkedForRemoval_def)

lemma terms_of_addReachableFact [simp]: "terms_of (addReachableFact A f s) h = terms_of s h"
  by (simp add: terms_of_def addReachableFact_def)

lemma terms_of_replaceBy [simp]: "terms_of (replaceBy f g s) h = terms_of s h"
  by (simp add: terms_of_def replaceBy_def)

lemma terms_of_upd_terms [simp]:
  "terms_of (upd_fact f (\<lambda>r. r\<lparr>term_domain_mapping := ts\<rparr>) s) h =
     (if h = f then set ts else terms_of s h)"
  by (simp add: terms_of_def)




lemma pending_replaceBy [simp]: "pending (replaceBy f g s) A B h = pending s A B h"
  by (simp add: pending_def)





























lemma initialising_facts: "initialising n F all P s \<Longrightarrow> facts s = F"
  by (simp add: initialising_def)









end
